theory Spec2Isabelle
  imports Main "HOL-Library.Word"
begin

section \<open>Phred-scaled genotype likelihoods (phredgenotypelikelihoods.cpp)\<close>

subsection \<open>Data\<close>

text \<open>
  The class stores a \<^verbatim>\<open>std::vector<double>\<close>.  The code never computes with the
  scores: it copies, indexes and prints them.  A \<^verbatim>\<open>double\<close> is therefore modelled as its
  IEEE-754 binary64 bit pattern, so that "exactly the stored value" means "the same 64
  bits" (a NaN is equal to itself here, and \<open>+0\<close> differs from \<open>-0\<close>).

  \<^verbatim>\<open>size_t\<close> indices and sizes are \<open>nat\<close>: the code does no arithmetic on them apart
  from the loop counter of \<^verbatim>\<open>toString\<close>, which stays below \<^verbatim>\<open>gl.size()\<close>, so nothing can
  wrap around.
\<close>

type_synonym double = "64 word"

record PhredGenotypeLikelihoods =
  gl :: "double list"

text \<open>\<^verbatim>\<open>assert(...)\<close> that fails aborts the program; it is the only failure of the class.\<close>

datatype error = AssertionFailure

subsection \<open>Member functions\<close>

text \<open>
  \<^verbatim>\<open>PhredGenotypeLikelihoods(const vector<double>& gl) : gl(gl) {}\<close>

  The member initialiser gives the member the contents of the argument; the body is empty.
\<close>

definition PhredGenotypeLikelihoods_ctor :: "double list \<Rightarrow> PhredGenotypeLikelihoods" where
  "PhredGenotypeLikelihoods_ctor v = \<lparr>gl = v\<rparr>"

text \<open>
  \<^verbatim>\<open>double get(size_t genotype) const { assert(genotype < gl.size()); return this->gl[genotype]; }\<close>
\<close>

definition get :: "PhredGenotypeLikelihoods \<Rightarrow> nat \<Rightarrow> error + double" where
  "get p genotype =
     (if genotype < length (gl p) then Inr (gl p ! genotype) else Inl AssertionFailure)"

text \<open>\<^verbatim>\<open>const vector<double>& as_vector() const { return gl; }\<close>\<close>

definition as_vector :: "PhredGenotypeLikelihoods \<Rightarrow> double list" where
  "as_vector p = gl p"

text \<open>\<^verbatim>\<open>size_t genotype_count() const { return gl.size(); }\<close>\<close>

definition genotype_count :: "PhredGenotypeLikelihoods \<Rightarrow> nat" where
  "genotype_count p = length (gl p)"

text \<open>
  \<^verbatim>\<open>toString\<close> writes into an \<^verbatim>\<open>ostringstream\<close>.  The stream is the accumulated string
  \<open>oss\<close>.  Printing a \<^verbatim>\<open>double\<close> with \<^verbatim>\<open>operator<<\<close> belongs to the C++ standard library;
  it is the parameter \<open>fmt\<close>.  The loop
  \<^verbatim>\<open>for (size_t i = 0; i < gl.size(); i++) { if (i > 0) oss << ","; oss << gl[i]; }\<close>
  is the recursion on \<open>i\<close>.
\<close>

function toString_loop :: "(double \<Rightarrow> string) \<Rightarrow> double list \<Rightarrow> nat \<Rightarrow> string \<Rightarrow> string" where
  "toString_loop fmt v i oss =
     (if i < length v
      then toString_loop fmt v (i + 1) ((if i > 0 then oss @ '','' else oss) @ fmt (v ! i))
      else oss)"
  by pat_completeness auto
termination
  by (relation "measure (\<lambda>(fmt, v, i, oss). length v - i)") auto

declare toString_loop.simps [simp del]

text \<open>\<^verbatim>\<open>endl\<close> writes the newline character (and flushes, which a string stream ignores).\<close>

definition endl :: string where
  "endl = [CHR 0x0A]"

definition toString :: "(double \<Rightarrow> string) \<Rightarrow> PhredGenotypeLikelihoods \<Rightarrow> string" where
  "toString fmt p = toString_loop fmt (gl p) 0 ''PhredGenotypeLikelihoods( '' @ '')'' @ endl"

subsection \<open>Calling a member function on an object\<close>

text \<open>
  A call returns a value or fails, and leaves the object in some state.  Every member
  function defined in the file is declared \<^verbatim>\<open>const\<close> and assigns to nothing, so the
  object after the call is the object before it.
\<close>

datatype member_call = Get nat | As_vector | Genotype_count | ToString

datatype retval = RDouble double | RVector "double list" | RSize nat | RString string

definition invoke ::
  "(double \<Rightarrow> string) \<Rightarrow> member_call \<Rightarrow> PhredGenotypeLikelihoods
     \<Rightarrow> (error + retval) \<times> PhredGenotypeLikelihoods" where
  "invoke fmt m p =
     (case m of
        Get i \<Rightarrow> ((case get p i of Inl e \<Rightarrow> Inl e | Inr d \<Rightarrow> Inr (RDouble d)), p)
      | As_vector \<Rightarrow> (Inr (RVector (as_vector p)), p)
      | Genotype_count \<Rightarrow> (Inr (RSize (genotype_count p)), p)
      | ToString \<Rightarrow> (Inr (RString (toString fmt p)), p))"

subsection \<open>The member functions as the program runs them\<close>

text \<open>
  The same four bodies, statement by statement, with the object they run on passed in
  and the object they leave behind passed out.  A body that assigned to a member would
  return another object here.

  \<^verbatim>\<open>get\<close>: the assertion reads \<^verbatim>\<open>gl.size()\<close>, the return statement reads
  \<^verbatim>\<open>this->gl[genotype]\<close>.  A failed assertion aborts the program; the object is as it
  was found.
\<close>

definition get_exec ::
  "nat \<Rightarrow> PhredGenotypeLikelihoods \<Rightarrow> (error + double) \<times> PhredGenotypeLikelihoods" where
  "get_exec genotype obj =
     (if genotype < length (gl obj)
      then (Inr (gl obj ! genotype), obj)
      else (Inl AssertionFailure, obj))"

definition as_vector_exec ::
  "PhredGenotypeLikelihoods \<Rightarrow> (error + double list) \<times> PhredGenotypeLikelihoods" where
  "as_vector_exec obj = (Inr (gl obj), obj)"

definition genotype_count_exec ::
  "PhredGenotypeLikelihoods \<Rightarrow> (error + nat) \<times> PhredGenotypeLikelihoods" where
  "genotype_count_exec obj = (Inr (length (gl obj)), obj)"

text \<open>
  The loop of \<^verbatim>\<open>toString\<close> writes to the local stream \<open>oss\<close> only; each round reads
  \<^verbatim>\<open>gl.size()\<close> and \<^verbatim>\<open>gl[i]\<close> of the object it was handed and hands the object on
  to the next round.
\<close>

function toString_loop_exec ::
  "(double \<Rightarrow> string) \<Rightarrow> nat \<Rightarrow> string \<Rightarrow> PhredGenotypeLikelihoods
     \<Rightarrow> string \<times> PhredGenotypeLikelihoods" where
  "toString_loop_exec fmt i oss obj =
     (if i < length (gl obj)
      then toString_loop_exec fmt (i + 1)
             ((if i > 0 then oss @ '','' else oss) @ fmt (gl obj ! i)) obj
      else (oss, obj))"
  by pat_completeness auto
termination
  by (relation "measure (\<lambda>(fmt, i, oss, obj). length (gl obj) - i)") auto

declare toString_loop_exec.simps [simp del]

definition toString_exec ::
  "(double \<Rightarrow> string) \<Rightarrow> PhredGenotypeLikelihoods
     \<Rightarrow> (error + string) \<times> PhredGenotypeLikelihoods" where
  "toString_exec fmt obj =
     (case toString_loop_exec fmt 0 ''PhredGenotypeLikelihoods( '' obj of
        (oss, obj') \<Rightarrow> (Inr (oss @ '')'' @ endl), obj'))"

text \<open>
  Modelled from the spec: the class declaration is in the header
  \<^verbatim>\<open>phredgenotypelikelihoods.h\<close>, which is not among the sources, so the list of the
  operations of the class is the spec's: \<^verbatim>\<open>get\<close>, \<^verbatim>\<open>as_sequence\<close> (in the code
  \<^verbatim>\<open>as_vector\<close>), \<^verbatim>\<open>genotype_count\<close> and \<^verbatim>\<open>toString\<close>, and no update operation.
  These are the four member functions that the source file defines.
\<close>

datatype operation = Op_get nat | Op_as_vector | Op_genotype_count | Op_toString

definition perform ::
  "(double \<Rightarrow> string) \<Rightarrow> operation \<Rightarrow> PhredGenotypeLikelihoods
     \<Rightarrow> (error + retval) \<times> PhredGenotypeLikelihoods" where
  "perform fmt c obj =
     (case c of
        Op_get i \<Rightarrow> (case get_exec i obj of (res, obj') \<Rightarrow> (map_sum id RDouble res, obj'))
      | Op_as_vector \<Rightarrow> (case as_vector_exec obj of (res, obj') \<Rightarrow> (map_sum id RVector res, obj'))
      | Op_genotype_count \<Rightarrow>
          (case genotype_count_exec obj of (res, obj') \<Rightarrow> (map_sum id RSize res, obj'))
      | Op_toString \<Rightarrow>
          (case toString_exec fmt obj of (res, obj') \<Rightarrow> (map_sum id RString res, obj')))"

text \<open>
  A client performs operations one after the other on the object that the previous one
  left; a failed assertion ends the run.
\<close>

fun perform_all ::
  "(double \<Rightarrow> string) \<Rightarrow> operation list \<Rightarrow> PhredGenotypeLikelihoods
     \<Rightarrow> PhredGenotypeLikelihoods" where
  "perform_all fmt [] obj = obj"
| "perform_all fmt (c # cs) obj =
     (case perform fmt c obj of
        (Inl e, obj') \<Rightarrow> obj'
      | (Inr v, obj') \<Rightarrow> perform_all fmt cs obj')"

subsection \<open>The constructor's argument and the member in memory\<close>

text \<open>
  The constructor receives a reference to a vector of its caller.  To speak about what the
  caller does to that vector afterwards, the vectors alive in the program are kept in a
  heap and named by their addresses.  The heap is the list of these vectors, the address
  of a vector is its position; a new vector is put at the end, so its address is one that
  no vector alive has.
\<close>

type_synonym addr = nat

type_synonym heap = "double list list"

definition vec_at :: "heap \<Rightarrow> addr \<Rightarrow> double list option" where
  "vec_at h a = (if a < length h then Some (h ! a) else None)"

definition new_vec :: "heap \<Rightarrow> double list \<Rightarrow> heap \<times> addr" where
  "new_vec h v = (h @ [v], length h)"

text \<open>
  The caller changes its vector (assignment, \<^verbatim>\<open>push_back\<close>, \<^verbatim>\<open>clear\<close>, writing an
  element): the vector at the address has new contents.
\<close>

definition assign_vec :: "heap \<Rightarrow> addr \<Rightarrow> double list \<Rightarrow> heap" where
  "assign_vec h a v = (if a < length h then h[a := v] else h)"

definition caller_writes :: "heap \<Rightarrow> addr \<Rightarrow> double list list \<Rightarrow> heap" where
  "caller_writes h r vs = fold (\<lambda>v h'. assign_vec h' r v) vs h"

text \<open>
  Modelled from the spec: the declaration of the member \<^verbatim>\<open>gl\<close> is in the header
  \<^verbatim>\<open>phredgenotypelikelihoods.h\<close>, which is not among the sources.  What the member
  initialiser \<^verbatim>\<open>gl(gl)\<close> of the constructor does depends on it, so the declaration is
  the parameter \<open>decl\<close>: for a member \<^verbatim>\<open>std::vector<double> gl\<close> the initialiser
  copy-constructs a new vector from the argument, for a member
  \<^verbatim>\<open>const std::vector<double>& gl\<close> it binds the member to the caller's vector.  The spec
  says that the container owns its own copy of the score sequence: \<open>Vector_member\<close>.

  \<open>construct\<close> takes the address \<open>r\<close> that the argument refers to and returns the heap
  after construction and the address of the vector that \<^verbatim>\<open>this->gl\<close> names from then
  on.  A reference that refers to no vector cannot be passed in C++: \<open>None\<close>.
\<close>

datatype member_decl = Vector_member | Reference_member

definition construct :: "member_decl \<Rightarrow> heap \<Rightarrow> addr \<Rightarrow> (heap \<times> addr) option" where
  "construct decl h r =
     (case vec_at h r of
        None \<Rightarrow> None
      | Some v \<Rightarrow>
          (case decl of
             Vector_member \<Rightarrow> Some (new_vec h (gl (PhredGenotypeLikelihoods_ctor v)))
           | Reference_member \<Rightarrow> Some (h, r)))"

text \<open>The instance as its member functions see it: \<^verbatim>\<open>this->gl\<close> read from the heap.\<close>

definition object_at :: "heap \<Rightarrow> addr \<Rightarrow> PhredGenotypeLikelihoods option" where
  "object_at h a = (case vec_at h a of None \<Rightarrow> None | Some v \<Rightarrow> Some \<lparr>gl = v\<rparr>)"

subsection \<open>The rendering the specification describes\<close>

text \<open>
  The specification's words for the text between the parentheses: the representations of
  the values in index order, separated by commas, with no space after a comma.
\<close>

fun join_commas :: "string list \<Rightarrow> string" where
  "join_commas [] = []"
| "join_commas [x] = x"
| "join_commas (x # y # ys) = x @ '','' @ join_commas (y # ys)"

text \<open>
  To run \<^verbatim>\<open>toString\<close> on the scores of the specification's scenarios, the standard
  library's default output for these scores: \<open>0.1\<close>, \<open>0.2\<close>, \<open>0.3\<close> and \<open>5.5\<close>, given
  by their bit patterns.  Any other score is shown as a question mark.
\<close>

definition ostream_sample :: "double \<Rightarrow> string" where
  "ostream_sample d =
     (if d = 0x3FB999999999999A then ''0.1''
      else if d = 0x3FC999999999999A then ''0.2''
      else if d = 0x3FD3333333333333 then ''0.3''
      else if d = 0x4016000000000000 then ''5.5''
      else ''?'')"

section \<open>Properties\<close>

subsection \<open>The loop of \<^verbatim>\<open>toString\<close>\<close>

lemma toString_loop_from:
  "0 < i \<Longrightarrow>
   toString_loop fmt v i oss = oss @ concat (map (\<lambda>d. '','' @ fmt d) (drop i v))"
proof (induction fmt v i oss rule: toString_loop.induct)
  case (1 fmt v i oss)
  show ?case
  proof (cases "i < length v")
    case True
    have "drop i v = v ! i # drop (Suc i) v"
      using True by (simp add: Cons_nth_drop_Suc)
    with 1 True show ?thesis
      by (subst toString_loop.simps) simp
  next
    case False
    then show ?thesis
      by (subst toString_loop.simps) simp
  qed
qed

lemma join_commas_Cons:
  "join_commas (x # xs) = x @ concat (map (\<lambda>y. '','' @ y) xs)"
  by (induction xs arbitrary: x) auto

lemma toString_loop_0:
  "toString_loop fmt v 0 oss = oss @ join_commas (map fmt v)"
proof (cases v)
  case Nil
  then show ?thesis
    by (subst toString_loop.simps) simp
next
  case (Cons d ds)
  then show ?thesis
    by (subst toString_loop.simps)
       (simp add: toString_loop_from join_commas_Cons comp_def)
qed

subsection \<open>Running the member functions\<close>

lemma toString_loop_exec_eq:
  "toString_loop_exec fmt i oss obj = (toString_loop fmt (gl obj) i oss, obj)"
proof (induction fmt i oss obj rule: toString_loop_exec.induct)
  case (1 fmt i oss obj)
  show ?case
  proof (cases "i < length (gl obj)")
    case True
    with 1 show ?thesis
      by (subst toString_loop_exec.simps, subst toString_loop.simps) simp
  next
    case False
    then show ?thesis
      by (subst toString_loop_exec.simps, subst toString_loop.simps) simp
  qed
qed

lemma exec_results:
  "fst (get_exec i obj) = get obj i"
  "fst (as_vector_exec obj) = Inr (as_vector obj)"
  "fst (genotype_count_exec obj) = Inr (genotype_count obj)"
  "fst (toString_exec fmt obj) = Inr (toString fmt obj)"
  by (simp_all add: get_exec_def get_def as_vector_exec_def as_vector_def
        genotype_count_exec_def genotype_count_def toString_exec_def toString_def
        toString_loop_exec_eq)

lemma exec_object:
  "snd (get_exec i obj) = obj"
  "snd (as_vector_exec obj) = obj"
  "snd (genotype_count_exec obj) = obj"
  "snd (toString_exec fmt obj) = obj"
  by (simp_all add: get_exec_def as_vector_exec_def genotype_count_exec_def
        toString_exec_def toString_loop_exec_eq)

lemma perform_object:
  "snd (perform fmt c obj) = obj"
  by (cases c) (simp_all add: perform_def case_prod_beta exec_object)

lemma perform_all_object:
  "perform_all fmt cs obj = obj"
proof (induction cs arbitrary: obj)
  case Nil
  show ?case by simp
next
  case (Cons c cs)
  obtain res obj' where step: "perform fmt c obj = (res, obj')"
    by (cases "perform fmt c obj")
  with perform_object [of fmt c obj] have "obj' = obj"
    by simp
  with step Cons.IH [of obj] show ?case
    by (cases res) simp_all
qed

subsection \<open>Vectors in the heap\<close>

lemma vec_at_assign_other:
  "a \<noteq> r \<Longrightarrow> vec_at (assign_vec h r v) a = vec_at h a"
  by (simp add: vec_at_def assign_vec_def)

lemma vec_at_caller_writes_other:
  "a \<noteq> r \<Longrightarrow> vec_at (caller_writes h r vs) a = vec_at h a"
proof (induction vs arbitrary: h)
  case Nil
  show ?case by (simp add: caller_writes_def)
next
  case (Cons v vs)
  have "caller_writes h r (v # vs) = caller_writes (assign_vec h r v) r vs"
    by (simp add: caller_writes_def)
  with Cons show ?case
    by (simp add: vec_at_assign_other)
qed

text \<open>
  Were the member declared as a reference, the object would read the caller's vector and
  follow what the caller writes to it.
\<close>

lemma reference_member_follows_caller:
  assumes "vec_at h r = Some S"
  shows "construct Reference_member h r = Some (h, r) \<and>
         object_at (assign_vec h r S') r = Some \<lparr>gl = S'\<rparr>"
  using assms
  by (simp add: construct_def object_at_def vec_at_def assign_vec_def split: if_splits)

subsection \<open>The claims\<close>

text \<open>
  C2: for every sequence \<open>S\<close>, the empty one included, an instance constructed from \<open>S\<close>
  reports \<open>length S\<close> as its genotype count.
\<close>

theorem genotype_count_ctor:
  "genotype_count (PhredGenotypeLikelihoods_ctor S) = length S"
  by (simp add: genotype_count_def PhredGenotypeLikelihoods_ctor_def)

text \<open>
  C1: for every sequence \<open>S\<close> and every index \<open>i < length S\<close>, \<^verbatim>\<open>get(i)\<close> on the
  instance constructed from \<open>S\<close> returns exactly \<open>S ! i\<close>, and the call leaves the
  instance as it was.
\<close>

theorem get_ctor:
  "i < length S \<Longrightarrow>
   get (PhredGenotypeLikelihoods_ctor S) i = Inr (S ! i) \<and>
   invoke fmt (Get i) (PhredGenotypeLikelihoods_ctor S)
     = (Inr (RDouble (S ! i)), PhredGenotypeLikelihoods_ctor S)"
  by (simp add: invoke_def get_def PhredGenotypeLikelihoods_ctor_def)

theorem get_ctor_witness:
  "(1::nat) < length [0x3FB999999999999A, 0x3FC999999999999A, 0x3FD3333333333333 :: double] \<and>
   get (PhredGenotypeLikelihoods_ctor
          [0x3FB999999999999A, 0x3FC999999999999A, 0x3FD3333333333333]) 1
     = Inr 0x3FC999999999999A"
  using get_ctor [of 1 "[0x3FB999999999999A, 0x3FC999999999999A, 0x3FD3333333333333]"
                     ostream_sample]
  by simp

text \<open>
  C3 (as the specification states it): \<^verbatim>\<open>toString()\<close> returns the text
  \<^verbatim>\<open>GenotypeLikelihoods( \<close>, the values separated by commas, a closing parenthesis and
  a newline.  The code writes the class name, \<^verbatim>\<open>PhredGenotypeLikelihoods( \<close>: on the
  scores 0.1, 0.2, 0.3 of scenario 3 the result is not the text the specification gives.
\<close>

theorem toString_prefix_counterexample:
  "toString ostream_sample
     (PhredGenotypeLikelihoods_ctor
        [0x3FB999999999999A, 0x3FC999999999999A, 0x3FD3333333333333])
     = ''PhredGenotypeLikelihoods( 0.1,0.2,0.3)'' @ [CHR 0x0A]
   \<and> toString ostream_sample
     (PhredGenotypeLikelihoods_ctor
        [0x3FB999999999999A, 0x3FC999999999999A, 0x3FD3333333333333])
     \<noteq> ''GenotypeLikelihoods( 0.1,0.2,0.3)'' @ [CHR 0x0A]"
  by (simp add: toString_def PhredGenotypeLikelihoods_ctor_def endl_def
        toString_loop.simps ostream_sample_def)

text \<open>
  C3 (amended): for every sequence \<open>S\<close>, \<^verbatim>\<open>toString()\<close> on the instance constructed
  from \<open>S\<close> returns \<^verbatim>\<open>PhredGenotypeLikelihoods( \<close>, then the representations of the
  values in index order separated by commas with no space, then \<^verbatim>\<open>)\<close> and a newline.
\<close>

theorem toString_ctor:
  "toString fmt (PhredGenotypeLikelihoods_ctor S)
     = ''PhredGenotypeLikelihoods( '' @ join_commas (map fmt S) @ '')'' @ [CHR 0x0A]"
  by (simp add: toString_def PhredGenotypeLikelihoods_ctor_def endl_def toString_loop_0)

text \<open>
  C4: for every sequence \<open>S\<close> and every index \<open>i \<ge> length S\<close>, \<^verbatim>\<open>get(i)\<close> fails
  its assertion and returns no value; so does \<^verbatim>\<open>get(1)\<close> for \<open>S = [5.5]\<close>.
\<close>

theorem get_out_of_range:
  "length S \<le> i \<Longrightarrow>
   get (PhredGenotypeLikelihoods_ctor S) i = Inl AssertionFailure \<and>
   fst (invoke fmt (Get i) (PhredGenotypeLikelihoods_ctor S)) = Inl AssertionFailure"
  by (simp add: invoke_def get_def PhredGenotypeLikelihoods_ctor_def)

theorem get_out_of_range_witness:
  "length [0x4016000000000000 :: double] \<le> 1 \<and>
   get (PhredGenotypeLikelihoods_ctor [0x4016000000000000]) 1 = Inl AssertionFailure"
  using get_out_of_range [of "[0x4016000000000000]" 1 ostream_sample]
  by simp

text \<open>
  C5: for every sequence \<open>S\<close>, \<^verbatim>\<open>as_vector()\<close> on the instance constructed from \<open>S\<close>
  yields the elements of \<open>S\<close>, in order.
\<close>

theorem as_vector_ctor:
  "as_vector (PhredGenotypeLikelihoods_ctor S) = S"
  by (simp add: as_vector_def PhredGenotypeLikelihoods_ctor_def)

text \<open>
  C6: the constructor copies.  When the argument refers to a vector of the caller that
  holds \<open>S\<close>, construction succeeds, and whatever the caller writes to that vector
  afterwards, any number of times, the object still holds \<open>S\<close>: \<^verbatim>\<open>as_vector\<close>,
  \<^verbatim>\<open>genotype_count\<close>, \<^verbatim>\<open>get\<close> and \<^verbatim>\<open>toString\<close> return what they return for \<open>S\<close>.
\<close>

theorem ctor_copy_isolated:
  assumes "vec_at h r = Some S"
  shows "\<exists>h1 self.
           construct Vector_member h r = Some (h1, self)
           \<and> object_at (caller_writes h1 r vs) self = Some \<lparr>gl = S\<rparr>
           \<and> map_option as_vector (object_at (caller_writes h1 r vs) self) = Some S
           \<and> map_option genotype_count (object_at (caller_writes h1 r vs) self)
               = Some (length S)
           \<and> map_option (\<lambda>p. get p i) (object_at (caller_writes h1 r vs) self)
               = Some (if i < length S then Inr (S ! i) else Inl AssertionFailure)
           \<and> map_option (toString fmt) (object_at (caller_writes h1 r vs) self)
               = Some (''PhredGenotypeLikelihoods( '' @ join_commas (map fmt S)
                         @ '')'' @ [CHR 0x0A])"
proof -
  from assms have r: "r < length h"
    by (simp add: vec_at_def split: if_splits)
  have made: "construct Vector_member h r = Some (h @ [S], length h)"
    using assms by (simp add: construct_def new_vec_def PhredGenotypeLikelihoods_ctor_def)
  from r have "length h \<noteq> r"
    by simp
  then have "vec_at (caller_writes (h @ [S]) r vs) (length h) = vec_at (h @ [S]) (length h)"
    by (rule vec_at_caller_writes_other)
  also have "\<dots> = Some S"
    by (simp add: vec_at_def)
  finally have obj: "object_at (caller_writes (h @ [S]) r vs) (length h) = Some \<lparr>gl = S\<rparr>"
    by (simp add: object_at_def)
  have "map_option as_vector (Some \<lparr>gl = S\<rparr>) = Some S"
    and "map_option genotype_count (Some \<lparr>gl = S\<rparr>) = Some (length S)"
    and "map_option (\<lambda>p. get p i) (Some \<lparr>gl = S\<rparr>)
           = Some (if i < length S then Inr (S ! i) else Inl AssertionFailure)"
    and "map_option (toString fmt) (Some \<lparr>gl = S\<rparr>)
           = Some (''PhredGenotypeLikelihoods( '' @ join_commas (map fmt S)
                     @ '')'' @ [CHR 0x0A])"
    by (simp_all add: as_vector_def genotype_count_def get_def toString_def endl_def
          toString_loop_0)
  with made obj show ?thesis
    by simp
qed

theorem ctor_copy_isolated_witness:
  "vec_at [[0x4016000000000000]] 0 = Some [0x4016000000000000]
   \<and> (\<exists>h1 self.
         construct Vector_member [[0x4016000000000000]] 0 = Some (h1, self)
         \<and> map_option as_vector
             (object_at (caller_writes h1 0 [[], [0x3FB999999999999A]]) self)
             = Some [0x4016000000000000])"
proof -
  have live: "vec_at [[0x4016000000000000]] 0 = Some [0x4016000000000000]"
    by (simp add: vec_at_def)
  from ctor_copy_isolated [OF live, of "[[], [0x3FB999999999999A]]" 0 ostream_sample]
  obtain h1 self where
    "construct Vector_member [[0x4016000000000000]] 0 = Some (h1, self)"
    "map_option as_vector
       (object_at (caller_writes h1 0 [[], [0x3FB999999999999A]]) self)
       = Some [0x4016000000000000]"
    by blast
  with live show ?thesis
    by blast
qed

text \<open>
  C7 (as the specification states it): for the empty sequence \<^verbatim>\<open>toString()\<close> returns
  \<^verbatim>\<open>GenotypeLikelihoods( )\<close> and a newline.  The code returns another text.
\<close>

theorem toString_empty_counterexample:
  "toString ostream_sample (PhredGenotypeLikelihoods_ctor [])
     \<noteq> ''GenotypeLikelihoods( )'' @ [CHR 0x0A]"
  by (simp add: toString_def PhredGenotypeLikelihoods_ctor_def endl_def toString_loop.simps)

text \<open>
  C7 (amended): for the empty sequence the genotype count is 0 and \<^verbatim>\<open>toString()\<close>
  returns \<^verbatim>\<open>PhredGenotypeLikelihoods( )\<close> followed by a newline.
\<close>

theorem empty_instance:
  "genotype_count (PhredGenotypeLikelihoods_ctor []) = 0 \<and>
   toString fmt (PhredGenotypeLikelihoods_ctor [])
     = ''PhredGenotypeLikelihoods( )'' @ [CHR 0x0A]"
  by (simp add: genotype_count_def toString_def PhredGenotypeLikelihoods_ctor_def endl_def
        toString_loop_0)

text \<open>
  C8: construction takes any sequence as it is, and a call fails exactly when it is
  \<^verbatim>\<open>get\<close> with an index that is not below the length: \<^verbatim>\<open>as_vector\<close>,
  \<^verbatim>\<open>genotype_count\<close> and \<^verbatim>\<open>toString\<close> return a value on every instance.
\<close>

theorem only_get_fails:
  "gl (PhredGenotypeLikelihoods_ctor S) = S \<and>
   isl (fst (invoke fmt m p))
     = (case m of Get i \<Rightarrow> length (gl p) \<le> i | As_vector \<Rightarrow> False
        | Genotype_count \<Rightarrow> False | ToString \<Rightarrow> False)"
  by (cases m) (auto simp: invoke_def get_def PhredGenotypeLikelihoods_ctor_def)

text \<open>
  C9: each of \<^verbatim>\<open>get\<close>, \<^verbatim>\<open>as_vector\<close>, \<^verbatim>\<open>genotype_count\<close> and \<^verbatim>\<open>toString\<close>,
  whatever it returns, leaves the instance it ran on as it was, and after any sequence
  of operations the stored sequence has the contents and the length it had.
\<close>

theorem operations_leave_instance:
  "snd (get_exec i p) = p \<and>
   snd (as_vector_exec p) = p \<and>
   snd (genotype_count_exec p) = p \<and>
   snd (toString_exec fmt p) = p \<and>
   gl (perform_all fmt cs p) = gl p \<and>
   length (gl (perform_all fmt cs p)) = length (gl p)"
  by (simp add: exec_object perform_all_object)

text \<open>
  C10: on every instance the genotype count is the length of the sequence that
  \<^verbatim>\<open>as_vector\<close> returns, and below that count \<^verbatim>\<open>get(i)\<close> is the \<open>i\<close>-th element of
  that sequence.
\<close>

theorem accessors_consistent:
  "genotype_count p = length (as_vector p) \<and>
   (\<forall>i. i < genotype_count p \<longrightarrow> get p i = Inr (as_vector p ! i))"
  by (simp add: genotype_count_def as_vector_def get_def)

theorem accessors_consistent_witness:
  "(2::nat) < genotype_count
      (PhredGenotypeLikelihoods_ctor [0x3FF0000000000000, 0x4000000000000000, 0x4008000000000000])
   \<and> get (PhredGenotypeLikelihoods_ctor
             [0x3FF0000000000000, 0x4000000000000000, 0x4008000000000000]) 2
       = Inr 0x4008000000000000"
proof -
  let ?p = "PhredGenotypeLikelihoods_ctor
              [0x3FF0000000000000, 0x4000000000000000, 0x4008000000000000]"
  have n: "(2::nat) < genotype_count ?p"
    by (simp add: genotype_count_def PhredGenotypeLikelihoods_ctor_def)
  from accessors_consistent [of ?p] n
  have "get ?p 2 = Inr (as_vector ?p ! 2)"
    by blast
  with n show ?thesis
    by (simp add: as_vector_def PhredGenotypeLikelihoods_ctor_def)
qed

end
